theory Spec2Isabelle
  imports Complex_Main
begin

section \<open>The progress reporter of journal-transporter\<close>

text \<open>
  A shallow embedding of \<^verbatim>\<open>AbstractProgressReporter\<close>
  (\<^verbatim>\<open>journal_transporter/progress/abstract_progress_reporter.py\<close>). The reporter
  object is a record that every method takes and returns; a Python exception is the
  \<open>Inl\<close> side of a sum. The abstract hooks that a concrete reporter overrides have an
  empty body in the base class: here each of them appends one entry to the field
  \<open>calls\<close>, which is how the opaque \<^verbatim>\<open>interface\<close> object is observed.
\<close>

subsection \<open>Values\<close>

text \<open>
  Modelled from the spec: the enumeration \<^verbatim>\<open>ProgressUpdateType\<close> lives in
  \<^verbatim>\<open>progress_update_type.py\<close>, which is not among the source files; the spec gives
  its four variants.
\<close>

datatype ProgressUpdateType = MAJOR | MINOR | DETAIL | DEBUG

text \<open>The exceptions the modelled Python raises by itself.\<close>

datatype exn = TypeError | IndexError

text \<open>What \<^verbatim>\<open>datetime.now()\<close> returns: the wall clock read during a call.\<close>

record datetime =
  dt_year :: nat
  dt_month :: nat
  dt_day :: nat
  dt_hour :: nat
  dt_minute :: nat
  dt_second :: nat

text \<open>
  Modelled from the spec: \<^verbatim>\<open>ServerResponseError\<close> is declared in
  \<^verbatim>\<open>transfer/exceptions.py\<close>, which is not among the source files. The spec says it
  carries a server response with a status code, a reason phrase and a body; the source
  reads them as \<^verbatim>\<open>error.response.status_code\<close>, \<^verbatim>\<open>.reason\<close> and
  \<^verbatim>\<open>.text\<close>. Every other exception is known by its \<^verbatim>\<open>args\<close> tuple, each
  argument kept as the string \<^verbatim>\<open>str()\<close> gives for it.
\<close>

record response =
  status_code :: int
  reason :: string
  response_text :: string

datatype pyerror = ServerResponseError response | OtherException "string list"

type_synonym error_context = "(string \<times> string) list"

text \<open>
  The observable effects. \<open>NewProgressBar\<close>, \<open>CloseProgressBar\<close>, \<open>UpdateInterface\<close>,
  \<open>PrintMessage\<close> and \<open>GetErrorResponse\<close> are the abstract hooks, with the arguments
  they receive (\<open>PrintMessage\<close>: the message and the keyword arguments
  \<^verbatim>\<open>error\<close> and \<^verbatim>\<open>fatal_error\<close>, \<open>False\<close> when not passed).
  \<open>SetProgress\<close> and \<open>SetMessage\<close> log an invocation of the two public setters.
  \<open>LogWrite path text\<close> is \<^verbatim>\<open>text\<close> appended to the file \<^verbatim>\<open>path\<close>, and
  \<open>StdoutPPrint\<close> is \<^verbatim>\<open>PrettyPrinter.pprint\<close> printing to standard output.
\<close>

datatype call =
    NewProgressBar int "string option" "int option" int
  | CloseProgressBar
  | UpdateInterface
  | PrintMessage "string option" bool bool
  | GetErrorResponse pyerror error_context
  | SetProgress rat
  | SetMessage string
  | LogWrite string string
  | StdoutPPrint error_context

text \<open>
  The attributes of the reporter. \<open>progress\<close> holds an \<^verbatim>\<open>int\<close> or, after a
  true division, a \<^verbatim>\<open>float\<close>: it is a rational here, and \<^verbatim>\<open>/\<close> is the exact
  quotient (the rounding of floating point is not modelled). \<open>subtask_length\<close> is
  \<open>None\<close> both when the attribute does not exist yet (\<^verbatim>\<open>__init__\<close> never sets it)
  and when it holds \<^verbatim>\<open>None\<close>: its only reader treats the two alike.
\<close>

record reporter =
  debug_mode :: bool
  log_debug :: bool
  log_error :: bool
  log_file :: "string option"
  needs_log_file :: bool
  on_error :: string
  verbose_mode :: bool
  progress :: rat
  message :: "string option"
  progress_length :: int
  subtask_length :: "int option"
  calls :: "call list"

subsection \<open>Python truthiness\<close>

definition truthy_str :: "string option \<Rightarrow> bool" where
  "truthy_str m = (case m of None \<Rightarrow> False | Some s \<Rightarrow> s \<noteq> [])"

definition truthy_int :: "int option \<Rightarrow> bool" where
  "truthy_int p = (case p of None \<Rightarrow> False | Some i \<Rightarrow> i \<noteq> 0)"

text \<open>\<^verbatim>\<open>a or b\<close> on optional strings.\<close>

definition py_or :: "string option \<Rightarrow> string option \<Rightarrow> string option" where
  "py_or a b = (if truthy_str a then a else b)"

subsection \<open>Formatting\<close>

definition digit :: "nat \<Rightarrow> char" where
  "digit n = ''0123456789'' ! (n mod 10)"

fun str_nat :: "nat \<Rightarrow> string" where
  "str_nat n = (if n < 10 then [digit n] else str_nat (n div 10) @ [digit n])"

definition str_int :: "int \<Rightarrow> string" where
  "str_int i = (if i < 0 then CHR ''-'' # str_nat (nat (- i)) else str_nat (nat i))"

text \<open>\<^verbatim>\<open>%m\<close>, \<^verbatim>\<open>%d\<close>, \<^verbatim>\<open>%H\<close>, \<^verbatim>\<open>%M\<close>, \<^verbatim>\<open>%S\<close>: two digits, zero padded.\<close>

definition pad2 :: "nat \<Rightarrow> string" where
  "pad2 n = (if n < 10 then CHR ''0'' # str_nat n else str_nat n)"

text \<open>\<^verbatim>\<open>_now\<close>: \<^verbatim>\<open>datetime.now().strftime("%Y-%m-%dT%H:%M:%S")\<close>.\<close>

definition now :: "datetime \<Rightarrow> string" where
  "now dt = str_nat (dt_year dt) @ ''-'' @ pad2 (dt_month dt) @ ''-'' @ pad2 (dt_day dt)
     @ ''T'' @ pad2 (dt_hour dt) @ '':'' @ pad2 (dt_minute dt) @ '':'' @ pad2 (dt_second dt)"

text \<open>The f-string \<^verbatim>\<open>f"{self._now()} -- {message}"\<close>.\<close>

definition stamped :: "datetime \<Rightarrow> string \<Rightarrow> string" where
  "stamped dt s = now dt @ '' -- '' @ s"

definition newline :: char where
  "newline = CHR 0x0A"

fun split_lines :: "string \<Rightarrow> string list" where
  "split_lines [] = [[]]"
| "split_lines (c # cs) =
     (if c = newline then [] # split_lines cs
      else (case split_lines cs of [] \<Rightarrow> [[c]] | l # ls \<Rightarrow> (c # l) # ls))"

fun join_lines :: "string list \<Rightarrow> string" where
  "join_lines [] = []"
| "join_lines [l] = l"
| "join_lines (l # ls) = l @ newline # join_lines ls"

definition blank_line :: "string \<Rightarrow> bool" where
  "blank_line l = (l \<noteq> [] \<and> list_all (\<lambda>c. c = CHR '' '' \<or> c = CHR 0x09) l)"

text \<open>
  \<^verbatim>\<open>textwrap.dedent\<close> on a text whose first line starts with a character that is not
  white space, as the one \<^verbatim>\<open>__error_info\<close> builds does: the common margin is empty, so
  nothing is stripped, and the lines made of blanks and tabs only become empty.
\<close>

definition dedent :: "string \<Rightarrow> string" where
  "dedent s = join_lines (map (\<lambda>l. if blank_line l then [] else l) (split_lines s))"

subsection \<open>Construction\<close>

text \<open>
  \<^verbatim>\<open>__init__\<close>: the arguments after \<^verbatim>\<open>interface\<close>, in the source's order. The body
  raises nowhere and \<^verbatim>\<open>setup\<close> is \<^verbatim>\<open>pass\<close>, so the result is always \<open>Inr\<close>;
  the sum type is there so that a failing construction could be told apart.
\<close>

definition init ::
  "string option \<Rightarrow> int \<Rightarrow> bool \<Rightarrow> bool \<Rightarrow> string \<Rightarrow> string \<Rightarrow> exn + reporter" where
  "init init_message start verbose debug log_mode on_err =
     Inr \<lparr> debug_mode = debug,
           log_debug = (log_mode \<in> set [''d'', ''debug'']),
           log_error = (log_mode \<in> set [''e'', ''error'']),
           log_file = None,
           needs_log_file = (log_mode \<in> set [''d'', ''debug''] \<or> log_mode \<in> set [''e'', ''error'']),
           on_error = on_err,
           verbose_mode = verbose,
           progress = of_int start,
           message = init_message,
           progress_length = 100,
           subtask_length = None,
           calls = [] \<rparr>"

subsection \<open>Hooks and setters\<close>

definition emit :: "reporter \<Rightarrow> call \<Rightarrow> reporter" where
  "emit r c = r\<lparr>calls := calls r @ [c]\<rparr>"

definition set_progress :: "reporter \<Rightarrow> rat \<Rightarrow> reporter" where
  "set_progress r p = emit (r\<lparr>progress := p\<rparr>) (SetProgress p)"

definition set_message :: "reporter \<Rightarrow> string \<Rightarrow> reporter" where
  "set_message r s = emit (r\<lparr>message := Some s\<rparr>) (SetMessage s)"

definition update_interface :: "reporter \<Rightarrow> reporter" where
  "update_interface r = emit r UpdateInterface"

definition new_progress_bar ::
  "reporter \<Rightarrow> int \<Rightarrow> string option \<Rightarrow> int option \<Rightarrow> int \<Rightarrow> reporter" where
  "new_progress_bar r len before_message bar_init_message start =
     emit r (NewProgressBar len before_message bar_init_message start)"

definition close_progress_bar :: "reporter \<Rightarrow> reporter" where
  "close_progress_bar r = emit r CloseProgressBar"

definition print_message :: "reporter \<Rightarrow> string option \<Rightarrow> bool \<Rightarrow> bool \<Rightarrow> reporter" where
  "print_message r m err fatal = emit r (PrintMessage m err fatal)"

subsection \<open>Debug output and the log\<close>

text \<open>\<^verbatim>\<open>_handle_debug\<close>; the update type is accepted and not used.\<close>

definition handle_debug ::
  "reporter \<Rightarrow> datetime \<Rightarrow> string option \<Rightarrow> ProgressUpdateType \<Rightarrow> reporter" where
  "handle_debug r dt m update_type =
     (case m of
        None \<Rightarrow> r
      | Some s \<Rightarrow>
          if debug_mode r \<and> s \<noteq> [] then print_message r (Some (stamped dt s)) False False
          else r)"

text \<open>\<^verbatim>\<open>__write_to_log\<close>: nothing is written without a log file or without a message.\<close>

definition private_write_to_log :: "reporter \<Rightarrow> datetime \<Rightarrow> string option \<Rightarrow> reporter" where
  "private_write_to_log r dt m =
     (case (log_file r, m) of
        (Some path, Some s) \<Rightarrow>
          if path \<noteq> [] \<and> s \<noteq> [] then emit r (LogWrite path (stamped dt s @ [newline]))
          else r
      | _ \<Rightarrow> r)"

definition private_log_debug :: "reporter \<Rightarrow> datetime \<Rightarrow> string option \<Rightarrow> reporter" where
  "private_log_debug r dt m = (if log_debug r then private_write_to_log r dt m else r)"

subsection \<open>update\<close>

text \<open>
  The arguments of \<^verbatim>\<open>update\<close> after the reporter and the clock reading, in the
  source's order: \<^verbatim>\<open>update_type\<close>, \<^verbatim>\<open>progress\<close> (here \<open>p\<close>),
  \<^verbatim>\<open>message\<close> (\<open>m\<close>), \<^verbatim>\<open>length\<close> (\<open>len\<close>) and \<^verbatim>\<open>debug_message\<close>
  (\<open>dm\<close>). The three branches of the source are three definitions.
\<close>

text \<open>
  The MAJOR branch. The source calls \<^verbatim>\<open>self._new_progress_bar(length, message, progress)\<close>
  with positional arguments, so \<^verbatim>\<open>progress\<close> arrives as \<^verbatim>\<open>bar_init_message\<close>
  and \<^verbatim>\<open>start\<close> keeps its default \<open>0\<close>.
\<close>

definition update_major :: "reporter \<Rightarrow> int option \<Rightarrow> string option \<Rightarrow> int \<Rightarrow> reporter" where
  "update_major r p m len =
     (if verbose_mode r then print_message r m False False
      else new_progress_bar (r\<lparr>subtask_length := None, message := m, progress_length := len\<rparr>)
             len m p 0)"

text \<open>The MINOR branch.\<close>

definition update_minor :: "reporter \<Rightarrow> int option \<Rightarrow> string option \<Rightarrow> int \<Rightarrow> reporter" where
  "update_minor r p m len =
     (if verbose_mode r
      then new_progress_bar (r\<lparr>progress_length := len, message := m\<rparr>) len m None 0
      else
        (let r1 = r\<lparr>subtask_length := Some len\<rparr>;
             r2 = (case p of
                     None \<Rightarrow> r1
                   | Some pv \<Rightarrow> if pv \<noteq> 0 then set_progress r1 (of_int pv) else r1);
             r3 = (case m of
                     None \<Rightarrow> r2
                   | Some s \<Rightarrow> if s \<noteq> [] then set_message (r2\<lparr>message := m\<rparr>) s else r2)
         in update_interface r3))"

text \<open>
  The first statement of the DETAIL branch:
  \<^verbatim>\<open>weighted_progress = progress / self.subtask_length\<close> when the attribute exists and
  is truthy, \<^verbatim>\<open>progress\<close> otherwise. The division is evaluated before the source looks
  at \<^verbatim>\<open>progress\<close>, and dividing \<^verbatim>\<open>None\<close> by an integer raises
  \<^verbatim>\<open>TypeError\<close>.
\<close>

definition weighted_progress :: "reporter \<Rightarrow> int option \<Rightarrow> exn + rat option" where
  "weighted_progress r p =
     (if truthy_int (subtask_length r)
      then (case (p, subtask_length r) of
              (Some pv, Some l) \<Rightarrow> Inr (Some (of_int pv / of_int l))
            | _ \<Rightarrow> Inl TypeError)
      else Inr (map_option of_int p))"

text \<open>The DETAIL branch.\<close>

definition update_detail :: "reporter \<Rightarrow> int option \<Rightarrow> string option \<Rightarrow> exn + reporter" where
  "update_detail r p m =
     (case weighted_progress r p of
        Inl e \<Rightarrow> Inl e
      | Inr weighted \<Rightarrow>
          (let r1 = (case weighted of
                       None \<Rightarrow> r
                     | Some w \<Rightarrow> if truthy_int p then set_progress r w else r);
               r2 = (case m of
                       None \<Rightarrow> r1
                     | Some s \<Rightarrow>
                         if s \<noteq> [] \<and> verbose_mode r1 then set_message (r1\<lparr>message := m\<rparr>) s
                         else r1)
           in Inr (update_interface r2)))"

definition update ::
  "reporter \<Rightarrow> datetime \<Rightarrow> ProgressUpdateType \<Rightarrow> int option \<Rightarrow> string option \<Rightarrow> int
     \<Rightarrow> string option \<Rightarrow> exn + reporter" where
  "update r dt update_type p m len dm =
     (if debug_mode r then Inr (handle_debug r dt (py_or dm m) update_type)
      else
        (case (case update_type of
                 MAJOR \<Rightarrow> Inr (update_major r p m len)
               | MINOR \<Rightarrow> Inr (update_minor r p m len)
               | DETAIL \<Rightarrow> update_detail r p m
               | DEBUG \<Rightarrow> Inr r) of
           Inl e \<Rightarrow> Inl e
         | Inr r' \<Rightarrow>
             Inr (if log_debug r' then private_log_debug r' dt (py_or dm m) else r')))"

subsection \<open>Shortcuts\<close>

definition major :: "reporter \<Rightarrow> datetime \<Rightarrow> string option \<Rightarrow> int \<Rightarrow> string option \<Rightarrow> exn + reporter" where
  "major r dt m len dm = update r dt MAJOR None m len dm"

definition minor ::
  "reporter \<Rightarrow> datetime \<Rightarrow> int option \<Rightarrow> string option \<Rightarrow> int \<Rightarrow> string option \<Rightarrow> exn + reporter" where
  "minor r dt p m len dm = update r dt MINOR p m len dm"

definition detail ::
  "reporter \<Rightarrow> datetime \<Rightarrow> int option \<Rightarrow> string option \<Rightarrow> string option \<Rightarrow> exn + reporter" where
  "detail r dt p m dm = update r dt DETAIL p m 100 dm"

definition debug :: "reporter \<Rightarrow> datetime \<Rightarrow> string \<Rightarrow> exn + reporter" where
  "debug r dt m = update r dt DEBUG None None 100 (Some m)"

subsection \<open>Sequences of updates\<close>

text \<open>One call of \<^verbatim>\<open>update\<close>: the clock reading during the call and its arguments.\<close>

datatype event = Update datetime ProgressUpdateType "int option" "string option" int "string option"

fun apply_event :: "reporter \<Rightarrow> event \<Rightarrow> exn + reporter" where
  "apply_event r (Update dt update_type p m len dm) = update r dt update_type p m len dm"

text \<open>Calls in sequence: an exception ends the run, as it would end the caller's.\<close>

fun run :: "reporter \<Rightarrow> event list \<Rightarrow> exn + reporter" where
  "run r [] = Inr r"
| "run r (e # es) = (case apply_event r e of Inl x \<Rightarrow> Inl x | Inr r' \<Rightarrow> run r' es)"

text \<open>What a call added to the log of effects.\<close>

definition emitted :: "reporter \<Rightarrow> reporter \<Rightarrow> call list" where
  "emitted r r' = drop (length (calls r)) (calls r')"

fun is_set_progress :: "call \<Rightarrow> bool" where
  "is_set_progress (SetProgress _) = True"
| "is_set_progress _ = False"

fun is_print_message :: "call \<Rightarrow> bool" where
  "is_print_message (PrintMessage _ _ _) = True"
| "is_print_message _ = False"

fun is_get_error_response :: "call \<Rightarrow> bool" where
  "is_get_error_response (GetErrorResponse _ _) = True"
| "is_get_error_response _ = False"

subsection \<open>Errors\<close>

text \<open>\<^verbatim>\<open>error\<close>: close the bar, print the message flagged as an error.\<close>

definition error :: "reporter \<Rightarrow> string \<Rightarrow> bool \<Rightarrow> reporter" where
  "error r m fatal = print_message (close_progress_bar r) (Some m) True fatal"

text \<open>
  \<^verbatim>\<open>__error_info\<close>. For any exception but a \<^verbatim>\<open>ServerResponseError\<close> the source
  returns \<^verbatim>\<open>error.args[0]\<close>, which raises \<^verbatim>\<open>IndexError\<close> on an exception built
  without arguments.
\<close>

definition private_error_info :: "pyerror \<Rightarrow> exn + string" where
  "private_error_info err =
     (case err of
        ServerResponseError resp \<Rightarrow>
          Inr (dedent (''Server returned an error response:''
                 @ ''Status '' @ str_int (status_code resp) @ '' - '' @ reason resp
                 @ response_text resp))
      | OtherException args \<Rightarrow>
          (case args of [] \<Rightarrow> Inl IndexError | a # _ \<Rightarrow> Inr a))"

text \<open>
  \<^verbatim>\<open>__log_error\<close>. \<^verbatim>\<open>PrettyPrinter(indent=2).pprint(context)\<close> prints the context
  to standard output and returns \<^verbatim>\<open>None\<close>, so the text handed to the log ends in the
  string \<^verbatim>\<open>None\<close>.
\<close>

definition private_log_error :: "reporter \<Rightarrow> datetime \<Rightarrow> pyerror \<Rightarrow> error_context \<Rightarrow> exn + reporter" where
  "private_log_error r dt err ctx =
     (if log_error r
      then (case private_error_info err of
              Inl e \<Rightarrow> Inl e
            | Inr error_info \<Rightarrow>
                Inr (private_write_to_log (emit r (StdoutPPrint ctx)) dt
                       (Some (error_info @ [newline] @ ''None''))))
      else Inr r)"

text \<open>
  \<^verbatim>\<open>report_error\<close>. The abstract \<^verbatim>\<open>_get_error_response\<close> is the parameter
  \<open>get_error_response\<close>: what the user interface answers for an error and a context.
  The result is the response together with the reporter.
\<close>

definition report_error ::
  "(pyerror \<Rightarrow> error_context \<Rightarrow> string) \<Rightarrow> reporter \<Rightarrow> datetime \<Rightarrow> pyerror \<Rightarrow> error_context
     \<Rightarrow> exn + (string \<times> reporter)" where
  "report_error get_error_response r dt err ctx =
     (let (resp, r1) =
            (if on_error r \<in> set [''c'', ''continue''] then (''continue'', r)
             else if on_error r \<in> set [''a'', ''abort''] then (''abort'', r)
             else (get_error_response err ctx, emit r (GetErrorResponse err ctx)))
      in if log_error r1
         then (case private_log_error r1 dt err ctx of
                 Inl e \<Rightarrow> Inl e
               | Inr r2 \<Rightarrow> Inr (resp, r2))
         else Inr (resp, r1))"

subsection \<open>Concrete inputs\<close>

text \<open>A clock reading for the concrete runs below.\<close>

definition clock0 :: datetime where
  "clock0 = \<lparr>dt_year = 2024, dt_month = 3, dt_day = 9,
             dt_hour = 14, dt_minute = 5, dt_second = 0\<rparr>"

text \<open>
  The reporter \<^verbatim>\<open>__init__\<close> builds from its defaults (not verbose, no debug output, no
  log, interactive errors), and the one built with \<^verbatim>\<open>debug=True\<close>.
\<close>

definition plain_reporter :: reporter where
  "plain_reporter =
     \<lparr> debug_mode = False, log_debug = False, log_error = False, log_file = None,
       needs_log_file = False, on_error = ''i'', verbose_mode = False, progress = 0,
       message = None, progress_length = 100, subtask_length = None, calls = [] \<rparr>"

definition debug_reporter :: reporter where
  "debug_reporter = plain_reporter\<lparr>debug_mode := True\<rparr>"

text \<open>The reporter after \<^verbatim>\<open>minor(length=5)\<close> on \<open>plain_reporter\<close>.\<close>

definition after_minor :: reporter where
  "after_minor = plain_reporter\<lparr>subtask_length := Some 5, calls := [UpdateInterface]\<rparr>"

text \<open>A run of one update of each type.\<close>

definition sample_events :: "event list" where
  "sample_events =
     [Update clock0 MAJOR None (Some ''Importing'') 10 None,
      Update clock0 MINOR (Some 2) (Some ''Journal'') 5 None,
      Update clock0 DETAIL (Some 3) None 100 (Some ''fetched''),
      Update clock0 DEBUG None None 100 (Some ''raw'')]"

text \<open>The debug reporter after \<^verbatim>\<open>major("Importing")\<close> at \<open>clock0\<close>.\<close>

definition debug_after_major :: reporter where
  "debug_after_major =
     debug_reporter\<lparr>calls := [PrintMessage (Some ''2024-03-09T14:05:00 -- Importing'') False False]\<rparr>"

text \<open>
  A verbose reporter that holds a subtask length, and the same after
  \<^verbatim>\<open>major("Importing")\<close>. No run from \<^verbatim>\<open>__init__\<close> reaches the first: only a
  MINOR update of a reporter that is not verbose sets the subtask length.
\<close>

definition verbose_stale :: reporter where
  "verbose_stale = plain_reporter\<lparr>verbose_mode := True, subtask_length := Some 5\<rparr>"

definition verbose_stale_after_major :: reporter where
  "verbose_stale_after_major =
     verbose_stale\<lparr>calls := [PrintMessage (Some ''Importing'') False False]\<rparr>"

text \<open>
  The run \<^verbatim>\<open>major("Importing", length=10)\<close>, \<^verbatim>\<open>minor(length=5)\<close>,
  \<^verbatim>\<open>detail(progress=100)\<close> on \<open>plain_reporter\<close>: the reporter after each call.
\<close>

definition bar10 :: reporter where
  "bar10 = plain_reporter\<lparr>message := Some ''Importing'', progress_length := 10,
             calls := [NewProgressBar 10 (Some ''Importing'') None 0]\<rparr>"

definition bar10_minor5 :: reporter where
  "bar10_minor5 = bar10\<lparr>subtask_length := Some 5,
             calls := [NewProgressBar 10 (Some ''Importing'') None 0, UpdateInterface]\<rparr>"

definition bar10_overrun :: reporter where
  "bar10_overrun = bar10_minor5\<lparr>progress := 20,
             calls := [NewProgressBar 10 (Some ''Importing'') None 0, UpdateInterface,
                       SetProgress 20, UpdateInterface]\<rparr>"

text \<open>
  The reporters \<^verbatim>\<open>__init__\<close> builds with \<^verbatim>\<open>log="e"\<close> and \<^verbatim>\<open>on_error\<close> left
  at its default, set to \<^verbatim>\<open>"c"\<close> and set to \<^verbatim>\<open>"a"\<close>.
\<close>

definition error_logging :: reporter where
  "error_logging = plain_reporter\<lparr>log_error := True, needs_log_file := True\<rparr>"

definition error_logging_continue :: reporter where
  "error_logging_continue = error_logging\<lparr>on_error := ''c''\<rparr>"

definition error_logging_abort :: reporter where
  "error_logging_abort = error_logging\<lparr>on_error := ''a''\<rparr>"

subsection \<open>Vocabulary of the proofs\<close>

text \<open>
  What \<^verbatim>\<open>__write_to_log\<close> appends for a log file and a message, and what
  \<^verbatim>\<open>__log_debug\<close> appends: the same, when debug logging is on.
\<close>

definition log_writes :: "string option \<Rightarrow> datetime \<Rightarrow> string option \<Rightarrow> call list" where
  "log_writes lf dt m =
     (case (lf, m) of
        (Some path, Some s) \<Rightarrow>
          if path \<noteq> [] \<and> s \<noteq> [] then [LogWrite path (stamped dt s @ [newline])] else []
      | _ \<Rightarrow> [])"

definition debug_log_writes :: "reporter \<Rightarrow> datetime \<Rightarrow> string option \<Rightarrow> call list" where
  "debug_log_writes r dt m = (if log_debug r then log_writes (log_file r) dt m else [])"

section \<open>Auxiliary facts\<close>

lemmas hook_defs = emit_def set_progress_def set_message_def update_interface_def
  new_progress_bar_def close_progress_bar_def print_message_def

lemma write_to_log_eq:
  "private_write_to_log r dt m = r\<lparr>calls := calls r @ log_writes (log_file r) dt m\<rparr>"
  by (cases "log_file r"; cases m) (simp_all add: private_write_to_log_def log_writes_def emit_def)

lemma log_writes_no_set_progress: "filter is_set_progress (log_writes lf dt m) = []"
  by (cases lf; cases m) (simp_all add: log_writes_def)

lemma debug_log_writes_no_set_progress: "filter is_set_progress (debug_log_writes r dt m) = []"
  by (simp add: debug_log_writes_def log_writes_no_set_progress)

lemma log_debug_eq:
  "private_log_debug r dt m = r\<lparr>calls := calls r @ debug_log_writes r dt m\<rparr>"
  by (simp add: private_log_debug_def debug_log_writes_def write_to_log_eq)

text \<open>Outside debug mode, \<^verbatim>\<open>update\<close> is the branch of its update type, then the log.\<close>

lemma update_not_debug:
  "\<not> debug_mode r \<Longrightarrow> update r dt k p m len dm =
     (case (case k of
              MAJOR \<Rightarrow> Inr (update_major r p m len)
            | MINOR \<Rightarrow> Inr (update_minor r p m len)
            | DETAIL \<Rightarrow> update_detail r p m
            | DEBUG \<Rightarrow> Inr r) of
        Inl e \<Rightarrow> Inl e
      | Inr r' \<Rightarrow> Inr (r'\<lparr>calls := calls r' @ debug_log_writes r' dt (py_or dm m)\<rparr>))"
  by (simp add: update_def log_debug_eq debug_log_writes_def split: sum.splits)



lemma after_minor_reached:
  "minor plain_reporter clock0 None None 5 None = Inr after_minor"
  by (simp add: minor_def update_def update_minor_def plain_reporter_def after_minor_def hook_defs)

lemmas fixture_defs = plain_reporter_def debug_reporter_def after_minor_def debug_after_major_def
  verbose_stale_def verbose_stale_after_major_def

lemmas update_defs = major_def minor_def detail_def update_def update_major_def update_minor_def
  update_detail_def weighted_progress_def handle_debug_def py_or_def truthy_str_def truthy_int_def
  private_log_debug_def private_write_to_log_def stamped_def

lemma now_clock0: "now clock0 = ''2024-03-09T14:05:00''"
  by (simp add: clock0_def now_def pad2_def digit_def)

text \<open>In debug mode a call prints at most one line and does nothing else.\<close>

lemma handle_debug_prints:
  "\<exists>ps. handle_debug r dt x k = r\<lparr>calls := calls r @ ps\<rparr> \<and> list_all is_print_message ps"
proof (cases "handle_debug r dt x k = r")
  case True
  then have "handle_debug r dt x k = r\<lparr>calls := calls r @ []\<rparr>" by simp
  then show ?thesis by (intro exI [of _ "[]"]) simp
next
  case False
  then obtain s where
    "handle_debug r dt x k = r\<lparr>calls := calls r @ [PrintMessage (Some (stamped dt s)) False False]\<rparr>"
    by (cases x) (auto simp: handle_debug_def print_message_def emit_def split: if_splits)
  then show ?thesis
    by (intro exI [of _ "[PrintMessage (Some (stamped dt s)) False False]"]) simp
qed

lemma run_debug:
  "debug_mode r \<Longrightarrow>
     \<exists>ps. run r es = Inr (r\<lparr>calls := calls r @ ps\<rparr>) \<and> list_all is_print_message ps"
proof (induction es arbitrary: r)
  case Nil
  have "run r [] = Inr (r\<lparr>calls := calls r @ []\<rparr>)" by simp
  then show ?case by (intro exI [of _ "[]"]) simp
next
  case (Cons e es)
  obtain dt k p m len dm where e: "e = Update dt k p m len dm" by (cases e)
  obtain ps where ps: "handle_debug r dt (py_or dm m) k = r\<lparr>calls := calls r @ ps\<rparr>"
    and pps: "list_all is_print_message ps"
    using handle_debug_prints by blast
  let ?r1 = "r\<lparr>calls := calls r @ ps\<rparr>"
  have step: "apply_event r e = Inr ?r1"
    using Cons.prems e ps by (simp add: update_def)
  have "debug_mode ?r1" using Cons.prems by simp
  from Cons.IH [OF this] obtain qs where
    qs: "run ?r1 es = Inr (?r1\<lparr>calls := calls ?r1 @ qs\<rparr>)" and pqs: "list_all is_print_message qs"
    by blast
  have "run r (e # es) = Inr (r\<lparr>calls := calls r @ (ps @ qs)\<rparr>)"
    using step qs by simp
  moreover have "list_all is_print_message (ps @ qs)" using pps pqs by simp
  ultimately show ?case by blast
qed




lemmas more_fixture_defs = bar10_def bar10_minor5_def bar10_overrun_def error_logging_def
  error_logging_continue_def error_logging_abort_def

lemma prints_no_set_progress:
  "list_all is_print_message ps \<Longrightarrow> filter is_set_progress ps = []"
  by (induction ps) (auto elim: is_print_message.elims)

lemma handle_debug_no_set_progress:
  "\<exists>ps. handle_debug r dt x k = r\<lparr>calls := calls r @ ps\<rparr> \<and> filter is_set_progress ps = []"
  using handle_debug_prints [of r dt x k] prints_no_set_progress by blast

text \<open>
  A MINOR or DETAIL update with the progress \<open>0\<close> returns, in every mode and state,
  sets no progress and leaves the one the reporter holds.
\<close>

lemma zero_progress_is_dropped:
  assumes "k = MINOR \<or> k = DETAIL"
  shows "\<exists>r'. update r dt k (Some 0) m len dm = Inr r' \<and> progress r' = progress r
           \<and> filter is_set_progress (emitted r r') = []"
proof (cases "debug_mode r")
  case True
  obtain ps where "handle_debug r dt (py_or dm m) k = r\<lparr>calls := calls r @ ps\<rparr>"
    and "filter is_set_progress ps = []"
    using handle_debug_no_set_progress by blast
  then show ?thesis using True by (simp add: update_def emitted_def)
next
  case False
  then show ?thesis
    using assms
    by (cases m; cases "verbose_mode r"; cases "subtask_length r")
       (auto simp: update_not_debug update_minor_def update_detail_def weighted_progress_def
          truthy_int_def hook_defs Let_def emitted_def debug_log_writes_no_set_progress)
qed

text \<open>Where the same update without a progress returns, it returns the same reporter.\<close>

lemma absent_progress_like_zero:
  assumes "k = MINOR \<or> k = DETAIL" and "update r dt k None m len dm = Inr x"
  shows "update r dt k (Some 0) m len dm = Inr x"
proof (cases "debug_mode r")
  case True
  then show ?thesis using assms(2) by (simp add: update_def)
next
  case False
  then show ?thesis
    using assms
    by (cases m; cases "verbose_mode r"; cases "subtask_length r")
       (auto simp: update_not_debug update_minor_def update_detail_def weighted_progress_def
          truthy_int_def hook_defs Let_def split: if_splits)
qed

text \<open>
  \<^verbatim>\<open>report_error\<close> where it returns: without error logging, and with error logging
  for an error that \<^verbatim>\<open>__error_info\<close> can describe.
\<close>

lemma report_error_without_log:
  assumes "\<not> log_error r"
  shows "report_error g r dt err ctx =
           (if on_error r \<in> set [''c'', ''continue''] then Inr (''continue'', r)
            else if on_error r \<in> set [''a'', ''abort''] then Inr (''abort'', r)
            else Inr (g err ctx, r\<lparr>calls := calls r @ [GetErrorResponse err ctx]\<rparr>))"
  using assms by (simp add: report_error_def emit_def)

lemma report_error_with_info:
  assumes "log_error r" and "private_error_info err = Inr info"
  shows "\<exists>r'. report_error g r dt err ctx =
           Inr (if on_error r \<in> set [''c'', ''continue''] then ''continue''
                else if on_error r \<in> set [''a'', ''abort''] then ''abort''
                else g err ctx, r')
         \<and> filter is_get_error_response (emitted r r') =
             (if on_error r \<in> set [''c'', ''continue''] \<or> on_error r \<in> set [''a'', ''abort'']
              then [] else [GetErrorResponse err ctx])"
  using assms
  by (cases "log_file r")
     (auto simp: report_error_def private_log_error_def emit_def emitted_def write_to_log_eq
        log_writes_def)

text \<open>
  A DETAIL update without a progress, outside debug mode: it raises when a subtask length
  that is not zero is set, and returns, setting nothing, otherwise.
\<close>

lemma detail_without_progress_raises:
  assumes "\<not> debug_mode r" and "subtask_length r = Some l" and "l \<noteq> 0"
  shows "update r dt DETAIL None m len dm = Inl TypeError"
  using assms
  by (simp add: update_not_debug update_detail_def weighted_progress_def truthy_int_def)

lemma detail_without_progress_returns:
  assumes "\<not> debug_mode r" and "\<not> truthy_int (subtask_length r)"
  shows "\<exists>r'. update r dt DETAIL None m len dm = Inr r' \<and> progress r' = progress r
           \<and> filter is_set_progress (emitted r r') = []"
  using assms
  by (cases m; cases "verbose_mode r")
     (auto simp: update_not_debug update_detail_def weighted_progress_def
        hook_defs Let_def emitted_def debug_log_writes_no_set_progress)

text \<open>No update of a verbose reporter changes the subtask length.\<close>

lemma verbose_update_keeps_subtask_length:
  assumes "verbose_mode r" and "update r dt k p m len dm = Inr r'"
  shows "verbose_mode r' \<and> subtask_length r' = subtask_length r"
proof (cases "debug_mode r")
  case True
  obtain ps where ps: "handle_debug r dt (py_or dm m) k = r\<lparr>calls := calls r @ ps\<rparr>"
    using handle_debug_prints by blast
  have "r' = r\<lparr>calls := calls r @ ps\<rparr>"
    using True assms(2) by (simp add: update_def ps)
  then show ?thesis using assms(1) by simp
next
  case False
  then show ?thesis
    using assms
    by (cases k; cases m; cases p)
       (auto simp: update_not_debug update_major_def update_minor_def update_detail_def
          hook_defs Let_def split: sum.splits if_splits option.splits)
qed

lemma verbose_run_keeps_subtask_length:
  "verbose_mode r \<Longrightarrow> run r es = Inr r' \<Longrightarrow> verbose_mode r' \<and> subtask_length r' = subtask_length r"
proof (induction es arbitrary: r)
  case Nil
  then show ?case by simp
next
  case (Cons e es)
  obtain dt k p m len dm where e: "e = Update dt k p m len dm" by (cases e)
  from Cons.prems(2) e obtain r1 where r1: "update r dt k p m len dm = Inr r1"
    and rest: "run r1 es = Inr r'"
    by (auto split: sum.splits)
  from verbose_update_keeps_subtask_length [OF Cons.prems(1) r1]
  have "verbose_mode r1" and "subtask_length r1 = subtask_length r" by simp_all
  with Cons.IH [OF _ rest] show ?case by simp
qed

section \<open>The claims\<close>






text \<open>
  C3. The code fails where the claim says it completes. After \<^verbatim>\<open>minor(length=5)\<close> on
  a reporter that is neither verbose nor in debug mode, a DETAIL update that gives no
  progress raises \<^verbatim>\<open>TypeError\<close>: the source divides \<^verbatim>\<open>progress\<close> by the subtask
  length before it tests \<^verbatim>\<open>if progress\<close>. The lemma \<open>detail_without_progress_raises\<close>
  gives every state in which it does so.
\<close>

theorem C3_detail_without_progress_raises:
  "init None 0 False False ''n'' ''i'' = Inr plain_reporter
   \<and> minor plain_reporter clock0 None None 5 None = Inr after_minor
   \<and> detail after_minor clock0 None (Some ''fetching'') None = Inl TypeError"
  by (simp add: init_def fixture_defs update_defs hook_defs)




text \<open>
  C5. The code fails where the claim says it returns. With error logging on
  (\<^verbatim>\<open>log="e"\<close>) and an exception built without arguments, \<^verbatim>\<open>report_error\<close> raises
  \<^verbatim>\<open>IndexError\<close> from \<^verbatim>\<open>error.args[0]\<close> instead of returning \<^verbatim>\<open>"continue"\<close> or
  \<^verbatim>\<open>"abort"\<close>. The lemmas \<open>report_error_without_log\<close> and \<open>report_error_with_info\<close>
  give the responses the claim states for every other call.
\<close>

theorem C5_continue_raises_on_empty_args:
  "init None 0 False False ''e'' ''c'' = Inr error_logging_continue
   \<and> report_error g error_logging_continue clock0 (OtherException []) [] = Inl IndexError
   \<and> init None 0 False False ''e'' ''a'' = Inr error_logging_abort
   \<and> report_error g error_logging_abort clock0 (OtherException []) [] = Inl IndexError"
  by (simp add: init_def fixture_defs more_fixture_defs report_error_def private_log_error_def
      private_error_info_def)

text \<open>
  C6. The code raises where the claim says it never does. Whenever error logging is on,
  \<^verbatim>\<open>report_error\<close> on an exception built without arguments raises \<^verbatim>\<open>IndexError\<close>,
  whatever the error mode, the context and the answer of the user interface.
\<close>

theorem C6_report_error_raises:
  assumes "log_error r"
  shows "report_error g r dt (OtherException []) ctx = Inl IndexError"
  using assms
  by (simp add: report_error_def private_log_error_def private_error_info_def emit_def
      split: prod.splits)

theorem C6_report_error_raises_witness:
  "init None 0 False False ''e'' ''i'' = Inr error_logging
   \<and> report_error (\<lambda>e c. ''retry'') error_logging clock0 (OtherException []) [(''record'', ''1'')]
       = Inl IndexError"
  using C6_report_error_raises [of error_logging "\<lambda>e c. ''retry''" clock0 "[(''record'', ''1'')]"]
  by (simp add: init_def error_logging_def plain_reporter_def)

text \<open>
  C7. In debug mode every sequence of updates, of every type, returns, and every effect
  it has is a \<^verbatim>\<open>_print_message\<close> call: no progress bar is opened or closed, no
  progress is set, the interface is not updated, nothing is logged.
\<close>

theorem C7_debug_mode_prints_only:
  assumes "debug_mode r"
  shows "\<exists>r'. run r es = Inr r' \<and> list_all is_print_message (emitted r r')"
proof -
  obtain ps where "run r es = Inr (r\<lparr>calls := calls r @ ps\<rparr>)" and "list_all is_print_message ps"
    using run_debug [OF assms] by blast
  then show ?thesis by (simp add: emitted_def)
qed

theorem C7_debug_mode_prints_only_witness:
  "run debug_reporter sample_events =
     Inr (debug_reporter\<lparr>calls :=
       [PrintMessage (Some ''2024-03-09T14:05:00 -- Importing'') False False,
        PrintMessage (Some ''2024-03-09T14:05:00 -- Journal'') False False,
        PrintMessage (Some ''2024-03-09T14:05:00 -- fetched'') False False,
        PrintMessage (Some ''2024-03-09T14:05:00 -- raw'') False False]\<rparr>)
   \<and> (\<exists>r'. run debug_reporter sample_events = Inr r'
         \<and> list_all is_print_message (emitted debug_reporter r'))"
proof -
  have d: "debug_mode debug_reporter" by (simp add: debug_reporter_def)
  have "run debug_reporter sample_events =
     Inr (debug_reporter\<lparr>calls :=
       [PrintMessage (Some ''2024-03-09T14:05:00 -- Importing'') False False,
        PrintMessage (Some ''2024-03-09T14:05:00 -- Journal'') False False,
        PrintMessage (Some ''2024-03-09T14:05:00 -- fetched'') False False,
        PrintMessage (Some ''2024-03-09T14:05:00 -- raw'') False False]\<rparr>)"
    by (simp add: sample_events_def debug_reporter_def plain_reporter_def update_def
        handle_debug_def py_or_def truthy_str_def print_message_def emit_def stamped_def now_clock0)
  then show ?thesis using C7_debug_mode_prints_only [OF d, of sample_events] by simp
qed

text \<open>
  C8, as stated, fails: the run prints one line, not two. \<^verbatim>\<open>detail(progress=3)\<close>
  carries no message and no debug message, and \<^verbatim>\<open>_handle_debug\<close> prints only a message
  that is not empty.
\<close>

theorem C8_counterexample:
  "init None 0 False True ''n'' ''i'' = Inr debug_reporter
   \<and> major debug_reporter clock0 (Some ''Importing'') 100 None = Inr debug_after_major
   \<and> detail debug_after_major clock0 (Some 3) None None = Inr debug_after_major
   \<and> calls debug_after_major = [PrintMessage (Some ''2024-03-09T14:05:00 -- Importing'') False False]
   \<and> length (filter is_print_message (calls debug_after_major)) = 1"
  by (simp add: init_def fixture_defs update_defs hook_defs now_clock0)

text \<open>
  C8, amended. In debug mode \<^verbatim>\<open>major("Importing")\<close> has one effect, the
  \<^verbatim>\<open>_print_message\<close> call with the time stamp of the call, \<^verbatim>\<open> -- \<close> and
  \<^verbatim>\<open>Importing\<close>; the \<^verbatim>\<open>detail(progress=3)\<close> that follows returns the reporter as it
  was, with no effect at all. So the run makes exactly one print call and no bar
  operation.
\<close>

theorem C8_debug_scenario:
  assumes "debug_mode r"
  shows "major r t1 (Some ''Importing'') 100 None
           = Inr (r\<lparr>calls := calls r @ [PrintMessage (Some (now t1 @ '' -- Importing'')) False False]\<rparr>)
       \<and> detail (r\<lparr>calls := calls r @ [PrintMessage (Some (now t1 @ '' -- Importing'')) False False]\<rparr>)
           t2 (Some 3) None None
           = Inr (r\<lparr>calls := calls r @ [PrintMessage (Some (now t1 @ '' -- Importing'')) False False]\<rparr>)"
  using assms by (simp add: update_defs hook_defs)

theorem C8_debug_scenario_witness:
  "major debug_reporter clock0 (Some ''Importing'') 100 None
     = Inr (debug_reporter\<lparr>calls := [PrintMessage (Some ''2024-03-09T14:05:00 -- Importing'') False False]\<rparr>)
   \<and> detail (debug_reporter\<lparr>calls := [PrintMessage (Some ''2024-03-09T14:05:00 -- Importing'') False False]\<rparr>)
       clock0 (Some 3) None None
     = Inr (debug_reporter\<lparr>calls := [PrintMessage (Some ''2024-03-09T14:05:00 -- Importing'') False False]\<rparr>)"
  using C8_debug_scenario [of debug_reporter clock0 clock0]
  by (simp add: debug_reporter_def plain_reporter_def now_clock0)

text \<open>
  C9, as stated, fails: \<^verbatim>\<open>__init__\<close> checks neither token. With \<^verbatim>\<open>log="verbose"\<close>
  and \<^verbatim>\<open>on_error="retry"\<close> it builds a reporter that logs nothing and keeps the token
  \<^verbatim>\<open>retry\<close>.
\<close>

theorem C9_counterexample:
  "init None 0 False False ''verbose'' ''retry'' = Inr (plain_reporter\<lparr>on_error := ''retry''\<rparr>)"
  by (simp add: init_def plain_reporter_def)

text \<open>
  C9, amended. Construction never fails, whatever the two tokens: it yields a reporter
  whose debug logging is on exactly for the tokens \<^verbatim>\<open>d\<close> and \<^verbatim>\<open>debug\<close>, whose error
  logging is on exactly for \<^verbatim>\<open>e\<close> and \<^verbatim>\<open>error\<close> (any other token means no logging),
  and which keeps the error mode token as it was given.
\<close>

theorem C9_init_never_fails:
  "\<exists>r. init init_message start verbose dbg log_mode on_err = Inr r
      \<and> log_debug r = (log_mode \<in> set [''d'', ''debug''])
      \<and> log_error r = (log_mode \<in> set [''e'', ''error''])
      \<and> on_error r = on_err"
  by (simp add: init_def)


end
